theory Spec2Isabelle
  imports Complex_Main "HOL-Library.Multiset"
begin

section \<open>Floating-point values\<close>

text \<open>
  The Python code computes with IEEE doubles. The model keeps the one special value the
  code can produce and react to, \<open>NaN\<close> (the result of \<open>np.sqrt\<close> on a negative number,
  which only warns), and takes every other double to be the real number it denotes:
  rounding and overflow are not modelled. A comparison with \<open>NaN\<close> is false, every
  arithmetic operation on \<open>NaN\<close> gives \<open>NaN\<close>.
\<close>

datatype fl = Fin real | NaN

fun fmul :: "fl \<Rightarrow> fl \<Rightarrow> fl" where
  "fmul (Fin a) (Fin b) = Fin (a * b)"
| "fmul _ _ = NaN"

fun fadd :: "fl \<Rightarrow> fl \<Rightarrow> fl" where
  "fadd (Fin a) (Fin b) = Fin (a + b)"
| "fadd _ _ = NaN"

fun fsub :: "fl \<Rightarrow> fl \<Rightarrow> fl" where
  "fsub (Fin a) (Fin b) = Fin (a - b)"
| "fsub _ _ = NaN"

fun fsq :: "fl \<Rightarrow> fl" where
  "fsq (Fin a) = Fin (a\<^sup>2)"
| "fsq NaN = NaN"

fun fneg :: "fl \<Rightarrow> fl" where
  "fneg (Fin a) = Fin (- a)"
| "fneg NaN = NaN"

fun fabs :: "fl \<Rightarrow> fl" where
  "fabs (Fin a) = Fin \<bar>a\<bar>"
| "fabs NaN = NaN"

fun fsqrt :: "fl \<Rightarrow> fl" where
  "fsqrt (Fin a) = (if a < 0 then NaN else Fin (sqrt a))"
| "fsqrt NaN = NaN"

fun fge :: "fl \<Rightarrow> fl \<Rightarrow> bool" where
  "fge (Fin a) (Fin b) = (a \<ge> b)"
| "fge _ _ = False"

fun fle :: "fl \<Rightarrow> fl \<Rightarrow> bool" where
  "fle (Fin a) (Fin b) = (a \<le> b)"
| "fle _ _ = False"

fun isnan :: "fl \<Rightarrow> bool" where
  "isnan NaN = True"
| "isnan (Fin _) = False"


section \<open>Errors and loops that may raise\<close>

datatype error =
    IndexError
  | KeyError
  | AxisError
  | ValueError
  | UnboundLocalError
  | AssertionError string

text \<open>
  A \<open>for\<close> loop that appends one computed item per iteration, and stops at the first
  exception.
\<close>

fun mapE :: "('a \<Rightarrow> error + 'b) \<Rightarrow> 'a list \<Rightarrow> error + 'b list" where
  "mapE f [] = Inr []"
| "mapE f (x # xs) =
     (case f x of
        Inl e \<Rightarrow> Inl e
      | Inr y \<Rightarrow> (case mapE f xs of Inl e \<Rightarrow> Inl e | Inr ys \<Rightarrow> Inr (y # ys)))"

text \<open>Indexing a numpy array or a Python list with a non-negative index.\<close>

definition item :: "'a list \<Rightarrow> nat \<Rightarrow> error + 'a" where
  "item xs i = (if i < length xs then Inr (xs ! i) else Inl IndexError)"

text \<open>
  \<open>series[i]\<close> on a pandas column with the default integer index: a lookup by label, so
  a negative or too large \<open>i\<close> is a \<open>KeyError\<close>.
\<close>

definition at_label :: "'a list \<Rightarrow> int \<Rightarrow> error + 'a" where
  "at_label xs i = (if 0 \<le> i \<and> i < int (length xs) then Inr (xs ! nat i) else Inl KeyError)"

text \<open>\<open>random_p[r][c]\<close> on a two-dimensional array.\<close>

definition item2 :: "'a list list \<Rightarrow> nat \<Rightarrow> nat \<Rightarrow> error + 'a" where
  "item2 a r c = (case item a r of Inl e \<Rightarrow> Inl e | Inr row \<Rightarrow> item row c)"

section \<open>Network data\<close>

text \<open>
  A row of \<open>net.sgen\<close> or \<open>net.load\<close>: the three columns the sampler and the sweep use.
\<close>

record fsp_row =
  sn_mva :: fl
  p_mw :: fl
  q_mvar :: fl

type_synonym setpoint = "fl \<times> fl"
type_synonym profile = "setpoint list"

section \<open>data\_sampler.py: constraint projections of the generators\<close>

text \<open>The body of the inner loop of \<open>sample_new_point\<close>, for iteration \<open>j\<close> and generator \<open>i\<close>.\<close>

definition sample_new_point_body :: "fsp_row list \<Rightarrow> real list list \<Rightarrow> nat \<Rightarrow> nat \<Rightarrow> error + setpoint" where
  "sample_new_point_body sgen random_p j i =
     (case item2 random_p (length sgen * j + i) 0 of
        Inl e \<Rightarrow> Inl e
      | Inr p_perc \<Rightarrow>
          (let p_new = fmul (sn_mva (sgen ! i)) (Fin p_perc);
               q_new = fmul (Fin ((- 1) ^ j)) (fsqrt (fsub (fsq (sn_mva (sgen ! i))) (fsq p_new)))
           in Inr (p_new, q_new)))"

definition sample_new_point :: "fsp_row list \<Rightarrow> real list list \<Rightarrow> nat \<Rightarrow> error + profile list" where
  "sample_new_point sgen random_p no_samples =
     mapE (\<lambda>j. mapE (\<lambda>i. sample_new_point_body sgen random_p j i) [0..<length sgen])
       [0..<no_samples]"

text \<open>The body of the inner loop of \<open>sample_new_non_mp_point\<close>.\<close>

definition sample_new_non_mp_point_body :: "fsp_row list \<Rightarrow> real list list \<Rightarrow> nat \<Rightarrow> nat \<Rightarrow> error + setpoint" where
  "sample_new_non_mp_point_body sgen random_p j i =
     (case item2 random_p (length sgen * j + i) 0 of
        Inl e \<Rightarrow> Inl e
      | Inr p_perc \<Rightarrow>
          (let p_new = (if p_perc \<ge> 1 then sn_mva (sgen ! i)
                        else if p_perc \<le> 0 then Fin 0
                        else fmul (sn_mva (sgen ! i)) (Fin p_perc));
               q_max = fsqrt (fsub (fsq (sn_mva (sgen ! i))) (fsq p_new))
           in (case item2 random_p (length sgen * j + i) 1 of
                 Inl e \<Rightarrow> Inl e
               | Inr q_perc \<Rightarrow>
                   (let q_new = (if fge q_max (fabs (fmul (sn_mva (sgen ! i)) (Fin q_perc)))
                                 then fmul (fmul (Fin ((- 1) ^ j)) (sn_mva (sgen ! i))) (Fin q_perc)
                                 else fmul (Fin ((- 1) ^ j)) q_max)
                    in Inr (p_new, q_new)))))"

definition sample_new_non_mp_point :: "fsp_row list \<Rightarrow> real list list \<Rightarrow> nat \<Rightarrow> error + profile list" where
  "sample_new_non_mp_point sgen random_p no_samples =
     mapE (\<lambda>j. mapE (\<lambda>i. sample_new_non_mp_point_body sgen random_p j i) [0..<length sgen])
       [0..<no_samples]"

text \<open>
  The inner loop body of \<open>sample_new_load_point\<close> when \<open>flex_loads\<close> is empty: every load
  is flexible and load \<open>i\<close> is row \<open>i\<close>. \<open>load_change\<close> is the constant 1 of the source.
\<close>

definition load_change :: real where
  "load_change = 1"

definition sample_new_load_point_all_body :: "fsp_row list \<Rightarrow> real list list \<Rightarrow> nat \<Rightarrow> nat \<Rightarrow> error + setpoint" where
  "sample_new_load_point_all_body loads random_p j i =
     (case item2 random_p (length loads * j + i) 0 of
        Inl e \<Rightarrow> Inl e
      | Inr p_perc \<Rightarrow>
          (let p_new = (if p_perc \<ge> 1 then p_mw (loads ! i)
                        else if p_perc \<le> 0 then Fin 0
                        else fmul (p_mw (loads ! i)) (Fin p_perc));
               p_new = fmul (Fin load_change) p_new;
               q_max = fsqrt (fsub (fmul (Fin (load_change * load_change)) (fsq (sn_mva (loads ! i))))
                                   (fsq p_new))
           in (case item2 random_p (length loads * j + i) 1 of
                 Inl e \<Rightarrow> Inl e
               | Inr q_perc \<Rightarrow>
                   (let q_new = (if fge q_max (fabs (fmul (fmul (Fin load_change) (q_mvar (loads ! i))) (Fin q_perc)))
                                 then fmul (q_mvar (loads ! i)) (Fin q_perc)
                                 else q_max);
                        q_new = fmul (Fin load_change) q_new
                    in Inr (p_new, q_new)))))"

text \<open>What the program prints.\<close>

datatype msg =
    Sampled nat string real
  | NanBudget fl fl int
  | NotConverged profile
  | PfNeeded nat real
  | PfRun nat
  | FlexNonFlex nat nat

text \<open>
  The inner loop body when \<open>flex_loads\<close> is given: \<open>idx\<close> is the position in \<open>flex_loads\<close>,
  \<open>i\<close> the label of the load. This branch prints a line when \<open>q_max\<close> is \<open>NaN\<close> and goes
  on; the result comes with the lines printed.
\<close>

definition sample_new_load_point_flex_body ::
    "fsp_row list \<Rightarrow> real list list \<Rightarrow> int list \<Rightarrow> nat \<Rightarrow> nat \<times> int \<Rightarrow> (error + setpoint) \<times> msg list" where
  "sample_new_load_point_flex_body loads random_p flex_loads j = (\<lambda>(idx, i).
     (case item2 random_p (length flex_loads * j + idx) 0 of
        Inl e \<Rightarrow> (Inl e, [])
      | Inr p_perc \<Rightarrow>
         (case at_label loads i of
            Inl e \<Rightarrow> (Inl e, [])
          | Inr row \<Rightarrow>
             (let p_new = (if p_perc \<ge> 1 then p_mw row
                           else if p_perc \<le> 0 then Fin 0
                           else fmul (p_mw row) (Fin p_perc));
                  p_new = fmul (Fin load_change) p_new;
                  q_max = fsqrt (fsub (fmul (Fin (load_change * load_change)) (fsq (sn_mva row)))
                                      (fsq p_new));
                  out = (if isnan q_max then [NanBudget (sn_mva row) p_new i] else [])
              in (case item2 random_p (length flex_loads * j + idx) 1 of
                    Inl e \<Rightarrow> (Inl e, out)
                  | Inr q_perc \<Rightarrow>
                      (let q_new = (if fge q_max (fabs (fmul (fmul (Fin load_change) (q_mvar row)) (Fin q_perc)))
                                    then fmul (q_mvar row) (Fin q_perc)
                                    else q_max);
                           q_new = fmul (Fin load_change) q_new
                       in (Inr (p_new, q_new), out)))))))"

text \<open>A loop that appends one item per iteration and may print, stopping at the first exception.\<close>

fun mapP :: "('a \<Rightarrow> (error + 'b) \<times> msg list) \<Rightarrow> 'a list \<Rightarrow> (error + 'b list) \<times> msg list" where
  "mapP f [] = (Inr [], [])"
| "mapP f (x # xs) =
     (case f x of
        (Inl e, out) \<Rightarrow> (Inl e, out)
      | (Inr y, out) \<Rightarrow>
          (case mapP f xs of
             (Inl e, out') \<Rightarrow> (Inl e, out @ out')
           | (Inr ys, out') \<Rightarrow> (Inr (y # ys), out @ out')))"

definition sample_new_load_point ::
    "fsp_row list \<Rightarrow> real list list \<Rightarrow> nat \<Rightarrow> int list \<Rightarrow> (error + profile list) \<times> msg list" where
  "sample_new_load_point loads random_p no_samples flex_loads =
     (if flex_loads = [] then
        (mapE (\<lambda>j. mapE (\<lambda>i. sample_new_load_point_all_body loads random_p j i) [0..<length loads])
           [0..<no_samples], [])
      else
        mapP (\<lambda>j. mapP (sample_new_load_point_flex_body loads random_p flex_loads j)
                      (enumerate 0 flex_loads))
          [0..<no_samples])"

section \<open>data\_sampler.py: raw draws\<close>

text \<open>
  numpy's \<open>RandomState\<close> is outside the repository; it is a parameter. \<open>RandomState seed\<close>
  is the state after seeding, \<open>normal mu sigma\<close> and \<open>uniform lo hi\<close> draw one value and
  advance the state. An array of shape \<open>[n, dof]\<close> is filled row by row from the stream.
\<close>

record 's numpy_random =
  RandomState :: "nat \<Rightarrow> 's"
  normal :: "real \<Rightarrow> real \<Rightarrow> 's \<Rightarrow> real \<times> 's"
  uniform :: "real \<Rightarrow> real \<Rightarrow> 's \<Rightarrow> real \<times> 's"

fun draw_row :: "('s \<Rightarrow> real \<times> 's) \<Rightarrow> nat \<Rightarrow> 's \<Rightarrow> real list \<times> 's" where
  "draw_row d 0 s = ([], s)"
| "draw_row d (Suc k) s =
     (case d s of (x, s') \<Rightarrow> (case draw_row d k s' of (xs, s'') \<Rightarrow> (x # xs, s'')))"

fun draw_array :: "('s \<Rightarrow> real \<times> 's) \<Rightarrow> nat \<Rightarrow> nat \<Rightarrow> 's \<Rightarrow> real list list \<times> 's" where
  "draw_array d 0 dof s = ([], s)"
| "draw_array d (Suc n) dof s =
     (case draw_row d dof s of (r, s') \<Rightarrow>
        (case draw_array d n dof s' of (rs, s'') \<Rightarrow> (r # rs, s'')))"

text \<open>\<open>np.concatenate((a, b), axis=1)\<close> of two arrays with one column each and as many rows.\<close>

definition columns :: "real list list \<Rightarrow> real list list \<Rightarrow> real list list" where
  "columns a b = map2 (@) a b"

definition sample_from_rng ::
    "'s numpy_random \<Rightarrow> string \<Rightarrow> nat \<Rightarrow> nat \<Rightarrow> 's \<Rightarrow> error + (real list list \<times> 's)" where
  "sample_from_rng np distribution no_samples_dg dof rng =
     (if distribution = ''Normal'' then
        Inr (draw_array (normal np 1 (2 / 100)) no_samples_dg dof rng)
      else if distribution = ''Uniform'' then
        Inr (draw_array (uniform np 0 1) no_samples_dg dof rng)
      else if distribution = ''Normal_Limits_Oriented'' then
        (if dof = 1 then
           Inr (draw_array (normal np 1 1) no_samples_dg dof rng)
         else if dof = 2 then
           (case draw_array (normal np 0 1) (1 * (no_samples_dg div 4)) 2 rng of (random_p1, rng) \<Rightarrow>
            case draw_array (normal np 0 1) (no_samples_dg div 4) 1 rng of (p2a, rng) \<Rightarrow>
            case draw_array (normal np 1 1) (no_samples_dg div 4) 1 rng of (p2b, rng) \<Rightarrow>
            case draw_array (normal np 1 1) (no_samples_dg div 4) 1 rng of (p3a, rng) \<Rightarrow>
            case draw_array (normal np 0 1) (no_samples_dg div 4) 1 rng of (p3b, rng) \<Rightarrow>
            case draw_array (normal np (1 / 2) 1) (no_samples_dg - no_samples_dg div 4) 1 rng of (p4a, rng) \<Rightarrow>
            case draw_array (normal np (1 / 2) 1) (no_samples_dg - no_samples_dg div 4) 1 rng of (p4b, rng) \<Rightarrow>
              Inr (random_p1 @ columns p2a p2b @ columns p3a p3b @ columns p4a p4b, rng))
         else Inl UnboundLocalError)
      else if distribution = ''No_change'' then
        Inr (replicate no_samples_dg (replicate dof 1), rng)
      else
        Inl (AssertionError ''Please specify a viable sampling distribution''))"

section \<open>The network, the clock and the console\<close>

text \<open>
  The pandapower network: the generator and load tables, and the result tables a solve
  fills (slack-bus injection, bus voltages, line and transformer loadings).
\<close>

record net =
  sgen :: "fsp_row list"
  load :: "fsp_row list"
  res_ext_grid_p_mw :: fl
  res_ext_grid_q_mvar :: fl
  res_bus_vm_pu :: "fl list"
  res_line_loading_percent :: "fl list"
  res_trafo_loading_percent :: "fl list"

text \<open>
  \<open>time.time()\<close> and \<open>print\<close> act on the world: \<open>wall_clock w k\<close> is what the \<open>k\<close>-th reading
  of the clock returns, \<open>reads\<close> counts the readings made, \<open>printed\<close> holds the lines
  printed so far. An exception leaves the world as it was when raised.
\<close>

record world =
  wall_clock :: "nat \<Rightarrow> real"
  reads :: nat
  printed :: "msg list"

type_synonym 'a io = "world \<Rightarrow> (error + 'a) \<times> world"

definition returnW :: "'a \<Rightarrow> 'a io" where
  "returnW x w = (Inr x, w)"

definition liftE :: "error + 'a \<Rightarrow> 'a io" where
  "liftE r w = (r, w)"

definition bindW :: "'a io \<Rightarrow> ('a \<Rightarrow> 'b io) \<Rightarrow> 'b io" where
  "bindW m f w = (case m w of (Inl e, w') \<Rightarrow> (Inl e, w') | (Inr a, w') \<Rightarrow> f a w')"

definition bindE :: "error + 'a \<Rightarrow> ('a \<Rightarrow> error + 'b) \<Rightarrow> error + 'b" where
  "bindE r f = (case r of Inl e \<Rightarrow> Inl e | Inr a \<Rightarrow> f a)"

definition time_time :: "real io" where
  "time_time w = (Inr (wall_clock w (reads w)), w\<lparr>reads := Suc (reads w)\<rparr>)"

definition print_msg :: "msg \<Rightarrow> unit io" where
  "print_msg m w = (Inr (), w\<lparr>printed := printed w @ [m]\<rparr>)"

definition emit :: "(error + 'a) \<times> msg list \<Rightarrow> 'a io" where
  "emit r w = (fst r, w\<lparr>printed := printed w @ snd r\<rparr>)"

section \<open>data\_sampler.py: sample creation\<close>

definition create_samples ::
    "'s numpy_random \<Rightarrow> nat \<Rightarrow> net \<Rightarrow> string \<Rightarrow> bool \<Rightarrow> 's \<Rightarrow> ((profile list \<times> real) \<times> 's) io" where
  "create_samples np no_samples net distribution keep_mp rng =
     bindW time_time (\<lambda>t_start.
     bindW (liftE
       (if keep_mp then
          bindE (sample_from_rng np distribution (no_samples * length (sgen net)) 1 rng)
            (\<lambda>(random_p, rng). bindE (sample_new_point (sgen net) random_p no_samples)
              (\<lambda>pq_profiles. Inr (pq_profiles, rng)))
        else
          bindE (sample_from_rng np distribution (no_samples * length (sgen net)) 2 rng)
            (\<lambda>(random_p, rng). bindE (sample_new_non_mp_point (sgen net) random_p no_samples)
              (\<lambda>pq_profiles. Inr (pq_profiles, rng)))))
       (\<lambda>(pq_profiles, rng).
     bindW time_time (\<lambda>t_stop.
     bindW (print_msg (Sampled no_samples distribution (t_stop - t_start))) (\<lambda>_.
     returnW ((pq_profiles, t_stop - t_start), rng)))))"

definition create_load_samples ::
    "'s numpy_random \<Rightarrow> nat \<Rightarrow> net \<Rightarrow> string \<Rightarrow> int list \<Rightarrow> 's \<Rightarrow> ((profile list \<times> real) \<times> 's) io" where
  "create_load_samples np no_samples net distribution flex_loads rng =
     (let flex_load_len = (if flex_loads = [] then length (load net) else length flex_loads) in
      bindW time_time (\<lambda>t_start.
      bindW (liftE (sample_from_rng np distribution (no_samples * flex_load_len) 2 rng))
        (\<lambda>(random_p, rng).
      bindW (emit (sample_new_load_point (load net) random_p no_samples flex_loads)) (\<lambda>pq_profiles.
      bindW time_time (\<lambda>t_stop.
      bindW (print_msg (Sampled no_samples distribution (t_stop - t_start))) (\<lambda>_.
      returnW ((pq_profiles, t_stop - t_start), rng)))))))"

text \<open>
  \<open>np.concatenate\<close> on two profile batches. A batch is rectangular (every profile of a
  batch has one setpoint per FSP), so as an array it has shape \<open>(0,)\<close> when it is empty,
  \<open>(n, 0)\<close> when its profiles are empty, and \<open>(n, m, 2)\<close> otherwise. Along axis 1 the arrays
  need at least two dimensions, the same number of them, and the same number of rows;
  along axis 0 they need the same number of dimensions and the same shape after the
  first.
\<close>

definition np_shape :: "profile list \<Rightarrow> nat list" where
  "np_shape ps =
     (case ps of
        [] \<Rightarrow> [0]
      | r # _ \<Rightarrow> (if r = [] then [length ps, 0] else [length ps, length r, 2]))"

definition concatenate_axis1 :: "profile list \<Rightarrow> profile list \<Rightarrow> error + profile list" where
  "concatenate_axis1 a b =
     (if length (np_shape a) < 2 then Inl AxisError
      else if length (np_shape a) \<noteq> length (np_shape b) \<or> hd (np_shape a) \<noteq> hd (np_shape b)
        then Inl ValueError
      else Inr (map2 (@) a b))"

definition concatenate_axis0 :: "profile list \<Rightarrow> profile list \<Rightarrow> error + profile list" where
  "concatenate_axis0 a b =
     (if length (np_shape a) \<noteq> length (np_shape b) \<or> tl (np_shape a) \<noteq> tl (np_shape b)
        then Inl ValueError
      else Inr (a @ b))"

definition profile_creation ::
    "'s numpy_random \<Rightarrow> nat \<Rightarrow> net \<Rightarrow> string \<Rightarrow> bool \<Rightarrow> string \<Rightarrow> int list \<Rightarrow> (profile list \<times> real) io" where
  "profile_creation np no_samples net distribution keep_mp services flexible_loads =
     (let rng = RandomState np 21 in
      if services = ''DG only'' then
        bindW (create_samples np no_samples net distribution keep_mp rng)
          (\<lambda>((profiles, dur_samples), rng). returnW (profiles, dur_samples))
      else if services = ''All'' then
        bindW (create_samples np (no_samples div 2) net distribution keep_mp rng)
          (\<lambda>((pq_profiles, dur_samples), rng).
        bindW (create_load_samples np (no_samples div 2) net distribution flexible_loads rng)
          (\<lambda>((pq_load_profiles, dur_load_samples), rng).
        bindW (liftE (concatenate_axis1 pq_profiles pq_load_profiles)) (\<lambda>profiles.
        bindW (create_samples np (1 * no_samples div 8) net ''No_change'' keep_mp rng)
          (\<lambda>((pq_profiles_new, dur_new), rng).
        bindW (liftE (concatenate_axis1 pq_profiles_new (take (1 * no_samples div 8) pq_load_profiles)))
          (\<lambda>profiles_new.
        bindW (liftE (concatenate_axis0 profiles profiles_new)) (\<lambda>profiles.
        bindW (create_load_samples np (3 * no_samples div 8) net ''No_change'' flexible_loads rng)
          (\<lambda>((pq_load_profiles, dur_load_samples'), rng).
        bindW (liftE (concatenate_axis1 (take (3 * no_samples div 8) pq_profiles) pq_load_profiles))
          (\<lambda>profiles_new.
        bindW (liftE (concatenate_axis0 profiles profiles_new)) (\<lambda>profiles.
        returnW (profiles, dur_samples + dur_load_samples + (dur_new + dur_load_samples')))))))))))
      else if services = ''Load only'' then
        bindW (create_samples np no_samples net ''No_change'' keep_mp rng)
          (\<lambda>((pq_profiles, dur_samples), rng).
        bindW (create_load_samples np no_samples net distribution flexible_loads rng)
          (\<lambda>((pq_load_profiles, dur_load_samples), rng).
        bindW (liftE (concatenate_axis1 pq_profiles pq_load_profiles)) (\<lambda>profiles.
        returnW (profiles, dur_samples + dur_load_samples))))
      else
        liftE (Inl (AssertionError ''Error: Choose FSPs from {All, Load only, DG only}'')))"


section \<open>utils.py: limit checks and profile application\<close>

definition check_line_current_limits :: "net \<Rightarrow> real \<Rightarrow> bool" where
  "check_line_current_limits net upper_limit =
     list_all (\<lambda>x. fge (Fin upper_limit) (fabs x)) (res_line_loading_percent net)"

definition check_trafo_current_limits :: "net \<Rightarrow> real \<Rightarrow> bool" where
  "check_trafo_current_limits net upper_limit =
     list_all (\<lambda>x. fge (Fin upper_limit) (fabs x)) (res_trafo_loading_percent net)"

definition check_voltage_limits :: "fl list \<Rightarrow> real \<Rightarrow> real \<Rightarrow> bool" where
  "check_voltage_limits voltages upper_limit lower_limit =
     list_all (\<lambda>x. fge (Fin upper_limit) x \<and> fge x (Fin lower_limit)) voltages"

text \<open>A loop that updates a state and stops at the first exception.\<close>

fun foldE :: "('a \<Rightarrow> 's \<Rightarrow> error + 's) \<Rightarrow> 'a list \<Rightarrow> 's \<Rightarrow> error + 's" where
  "foldE f [] s = Inr s"
| "foldE f (x # xs) s = (case f x s of Inl e \<Rightarrow> Inl e | Inr s' \<Rightarrow> foldE f xs s')"

text \<open>
  The tables have the default integer index. A read \<open>net.sgen[column][i]\<close> is a lookup by
  label: \<open>KeyError\<close> when \<open>i\<close> is not a row of the table. An assignment
  \<open>net.sgen[column][i] = v\<close> or \<open>net.load[column][j] = v\<close> to a row of the table changes
  that cell; an assignment to a label that is not a row enlarges a copy of the column,
  raises nothing and leaves the table as it is.
\<close>

definition read_sgen :: "nat \<Rightarrow> net \<Rightarrow> error + fsp_row" where
  "read_sgen i net = (if i < length (sgen net) then Inr (sgen net ! i) else Inl KeyError)"

definition write_sgen :: "nat \<Rightarrow> (fsp_row \<Rightarrow> fsp_row) \<Rightarrow> net \<Rightarrow> net" where
  "write_sgen i f net =
     (if i < length (sgen net) then net\<lparr>sgen := (sgen net)[i := f (sgen net ! i)]\<rparr> else net)"

definition write_load :: "int \<Rightarrow> (fsp_row \<Rightarrow> fsp_row) \<Rightarrow> net \<Rightarrow> net" where
  "write_load j f net =
     (if 0 \<le> j \<and> j < int (length (load net))
      then net\<lparr>load := (load net)[nat j := f (load net ! nat j)]\<rparr>
      else net)"

text \<open>
  The generator part of the loop body of \<open>update_pqs\<close> and of \<open>update_pqs_wl\<close> (the same
  statements in both). In the branch of a generator that is not flexible, each
  assignment reads \<open>p_mw\<close> of the generator first, the second one the value the first has
  just written.
\<close>

definition update_sgen_entry :: "int list \<Rightarrow> int list \<Rightarrow> profile \<Rightarrow> real \<Rightarrow> real \<Rightarrow> nat \<Rightarrow> net \<Rightarrow> error + net" where
  "update_sgen_entry flex_wt flex_pv profile scale_w scale_pv i net =
     (let scale = (if int i = int (length (sgen net)) - 1 then scale_w else scale_pv) in
      if int i \<in> set flex_pv \<or> int i \<in> set flex_wt then
        (let net = write_sgen i (\<lambda>r. r\<lparr>p_mw := fmul (fst (profile ! i)) (Fin scale)\<rparr>) net
         in Inr (write_sgen i (\<lambda>r. r\<lparr>q_mvar := fmul (snd (profile ! i)) (Fin scale)\<rparr>) net))
      else
        bindE (read_sgen i net) (\<lambda>old.
          let net = write_sgen i (\<lambda>r. r\<lparr>p_mw := fmul (p_mw old) (Fin scale)\<rparr>) net in
          bindE (read_sgen i net) (\<lambda>new.
            Inr (write_sgen i (\<lambda>r. r\<lparr>q_mvar := fmul (p_mw new) (Fin scale)\<rparr>) net))))"

text \<open>The loop body of the branch without a profile: every generator is scaled.\<close>

definition scale_sgen_entry :: "real \<Rightarrow> real \<Rightarrow> nat \<Rightarrow> net \<Rightarrow> error + net" where
  "scale_sgen_entry scale_w scale_pv i net =
     (let scale = (if int i = int (length (sgen net)) - 1 then scale_w else scale_pv) in
      bindE (read_sgen i net) (\<lambda>old.
        let net = write_sgen i (\<lambda>r. r\<lparr>p_mw := fmul (p_mw old) (Fin scale)\<rparr>) net in
        bindE (read_sgen i net) (\<lambda>new.
          Inr (write_sgen i (\<lambda>r. r\<lparr>q_mvar := fmul (q_mvar new) (Fin scale)\<rparr>) net))))"

text \<open>\<open>if profile:\<close> is false for \<open>None\<close> and for the empty list, both \<open>[]\<close> here.\<close>

definition update_pqs :: "net \<Rightarrow> int list \<Rightarrow> int list \<Rightarrow> profile \<Rightarrow> real \<Rightarrow> real \<Rightarrow> error + net" where
  "update_pqs net flex_wt flex_pv profile scale_w scale_pv =
     (if profile \<noteq> [] then
        foldE (update_sgen_entry flex_wt flex_pv profile scale_w scale_pv) [0..<length profile] net
      else
        foldE (scale_sgen_entry scale_w scale_pv) [0..<length (sgen net)] net)"

text \<open>
  The load part of the loop body of \<open>update_pqs_wl\<close>: \<open>load_ind[i - len(net.sgen)]\<close> is an
  index into a list, \<open>IndexError\<close> when the profile has more entries than there are
  generators and flexible loads.
\<close>

definition update_load_entry :: "profile \<Rightarrow> int list \<Rightarrow> nat \<Rightarrow> net \<Rightarrow> error + net" where
  "update_load_entry profile load_ind i net =
     bindE (item load_ind (i - length (sgen net)))
       (\<lambda>j. let net = write_load j (\<lambda>r. r\<lparr>p_mw := fst (profile ! i)\<rparr>) net
            in Inr (write_load j (\<lambda>r. r\<lparr>q_mvar := snd (profile ! i)\<rparr>) net))"

definition update_pqs_wl ::
    "net \<Rightarrow> int list \<Rightarrow> int list \<Rightarrow> profile \<Rightarrow> real \<Rightarrow> real \<Rightarrow> int list \<Rightarrow> error + net" where
  "update_pqs_wl net flex_wt flex_pv profile scale_w scale_pv load_ind =
     (if profile \<noteq> [] then
        foldE (\<lambda>i net. if i < length (sgen net)
                        then update_sgen_entry flex_wt flex_pv profile scale_w scale_pv i net
                        else update_load_entry profile load_ind i net)
          [0..<length profile] net
      else
        foldE (scale_sgen_entry scale_w scale_pv) [0..<length (sgen net)] net)"

section \<open>monte\_carlo.py: the sweep\<close>

text \<open>
  The power-flow solver is outside the repository; it is a parameter. \<open>pp.runpp(net)\<close>
  works on the network in place and either returns, with the result tables filled, or
  raises.
\<close>

datatype solve = Solved net | Failed net

record settings =
  no_samples :: nat
  fsps :: string
  fsp_wt :: "int list"
  fsp_pv :: "int list"
  fsp_load :: "int list"
  max_curr :: real
  max_volt :: real
  min_volt :: real

record buckets =
  x_flexible :: "fl list"
  y_flexible :: "fl list"
  x_non_flexible :: "fl list"
  y_non_flexible :: "fl list"
  prof_flexible :: "profile list"
  prof_non_flexible :: "profile list"

definition no_buckets :: buckets where
  "no_buckets = \<lparr>x_flexible = [], y_flexible = [], x_non_flexible = [], y_non_flexible = [],
                  prof_flexible = [], prof_non_flexible = []\<rparr>"

text \<open>A loop over a list that updates a state, acts on the world, and stops at the first exception.\<close>

fun forW :: "('a \<Rightarrow> 's \<Rightarrow> 's io) \<Rightarrow> 'a list \<Rightarrow> 's \<Rightarrow> 's io" where
  "forW body [] s w = (Inr s, w)"
| "forW body (x # xs) s w =
     (case body x s w of (Inl e, w') \<Rightarrow> (Inl e, w') | (Inr s', w') \<Rightarrow> forW body xs s' w')"

text \<open>
  The \<open>try\<close> statement of the loop body, the same in \<open>run_all_samples\<close> and in
  \<open>run_all_samples_wl\<close>: solve, then classify; the bare \<open>except\<close> prints and goes on.
\<close>

definition try_runpp :: "(net \<Rightarrow> solve) \<Rightarrow> settings \<Rightarrow> profile \<Rightarrow> net \<Rightarrow> buckets \<Rightarrow> (net \<times> buckets) io" where
  "try_runpp runpp settings profile net b =
     (case runpp net of
        Failed net \<Rightarrow> bindW (print_msg (NotConverged profile)) (\<lambda>_. returnW (net, b))
      | Solved net \<Rightarrow>
          (let pq_value = (res_ext_grid_p_mw net, res_ext_grid_q_mvar net) in
           if check_voltage_limits (res_bus_vm_pu net) (max_volt settings) (min_volt settings)
              \<and> check_line_current_limits net (max_curr settings)
              \<and> check_trafo_current_limits net (max_curr settings)
           then returnW (net, b\<lparr>x_flexible := x_flexible b @ [fst pq_value],
                                y_flexible := y_flexible b @ [snd pq_value],
                                prof_flexible := prof_flexible b @ [profile]\<rparr>)
           else returnW (net, b\<lparr>x_non_flexible := x_non_flexible b @ [fst pq_value],
                                y_non_flexible := y_non_flexible b @ [snd pq_value],
                                prof_non_flexible := prof_non_flexible b @ [profile]\<rparr>)))"

definition run_all_samples_body :: "(net \<Rightarrow> solve) \<Rightarrow> settings \<Rightarrow> profile \<Rightarrow> net \<times> buckets \<Rightarrow> (net \<times> buckets) io" where
  "run_all_samples_body runpp settings profile = (\<lambda>(net, b).
     bindW (liftE (update_pqs net (fsp_wt settings) (fsp_pv settings) profile 1 1))
       (\<lambda>net. try_runpp runpp settings profile net b))"

type_synonym sweep_result =
  "fl list \<times> fl list \<times> fl list \<times> fl list \<times> real \<times> profile list \<times> profile list"

definition run_all_samples :: "(net \<Rightarrow> solve) \<Rightarrow> settings \<Rightarrow> net \<Rightarrow> profile list \<Rightarrow> sweep_result io" where
  "run_all_samples runpp settings net pq_profiles =
     bindW time_time (\<lambda>t_start.
     bindW (forW (run_all_samples_body runpp settings) pq_profiles (net, no_buckets)) (\<lambda>(net, b).
     bindW time_time (\<lambda>t_stop.
     bindW (print_msg (PfNeeded (no_samples settings) (t_stop - t_start))) (\<lambda>_.
     bindW (print_msg (PfRun (length (y_flexible b) + length (y_non_flexible b)))) (\<lambda>_.
     returnW (x_flexible b, y_flexible b, x_non_flexible b, y_non_flexible b,
              t_stop - t_start, prof_flexible b, prof_non_flexible b))))))"

definition run_all_samples_wl_body :: "(net \<Rightarrow> solve) \<Rightarrow> settings \<Rightarrow> profile \<Rightarrow> net \<times> buckets \<Rightarrow> (net \<times> buckets) io" where
  "run_all_samples_wl_body runpp settings profile = (\<lambda>(net, b).
     bindW (liftE (update_pqs_wl net (fsp_wt settings) (fsp_pv settings) profile 1 1 (fsp_load settings)))
       (\<lambda>net. try_runpp runpp settings profile net b))"

definition run_all_samples_wl :: "(net \<Rightarrow> solve) \<Rightarrow> settings \<Rightarrow> net \<Rightarrow> profile list \<Rightarrow> sweep_result io" where
  "run_all_samples_wl runpp settings net pq_profiles =
     bindW time_time (\<lambda>t_start.
     bindW (forW (run_all_samples_wl_body runpp settings) pq_profiles (net, no_buckets)) (\<lambda>(net, b).
     bindW time_time (\<lambda>t_stop.
     bindW (print_msg (FlexNonFlex (length (x_flexible b)) (length (x_non_flexible b)))) (\<lambda>_.
     bindW (print_msg (PfNeeded (no_samples settings) (t_stop - t_start))) (\<lambda>_.
     returnW (x_flexible b, y_flexible b, x_non_flexible b, y_non_flexible b,
              t_stop - t_start, prof_flexible b, prof_non_flexible b))))))"

definition all_pf_simulations :: "(net \<Rightarrow> solve) \<Rightarrow> settings \<Rightarrow> net \<Rightarrow> profile list \<Rightarrow> sweep_result io" where
  "all_pf_simulations runpp settings net pq_profiles =
     (if fsps settings = ''DG only'' then run_all_samples runpp settings net pq_profiles
      else if fsps settings = ''All'' \<or> fsps settings = ''Load only''
        then run_all_samples_wl runpp settings net pq_profiles
      else liftE (Inl (AssertionError ''Error: Choose FSPs from {All, Load only, DG only}'')))"


section \<open>The apparent-power envelope\<close>

text \<open>The envelope property of a setpoint of an FSP rated \<open>sn\<close>: \<open>p^2 + q^2 <= sn^2 + eps\<close>.\<close>

definition within_envelope :: "fl \<Rightarrow> real \<Rightarrow> setpoint \<Rightarrow> bool" where
  "within_envelope sn eps pq = fle (fadd (fsq (fst pq)) (fsq (snd pq))) (fadd (fsq sn) (Fin eps))"

section \<open>The solves of a sweep and where they are filed\<close>


text \<open>The three limit checks, as the condition of the \<open>if\<close> statement of the sweeps has them.\<close>

definition within_limits :: "settings \<Rightarrow> net \<Rightarrow> bool" where
  "within_limits settings net =
     (check_voltage_limits (res_bus_vm_pu net) (max_volt settings) (min_volt settings)
      \<and> check_line_current_limits net (max_curr settings)
      \<and> check_trafo_current_limits net (max_curr settings))"





section \<open>The limits as the specification words them\<close>

text \<open>
  The classification rule in the words of the specification: every bus voltage within
  \<open>[min_volt, max_volt]\<close>, every line loading and every transformer loading at most
  \<open>max_curr\<close>.
\<close>

definition within_limits_spec :: "settings \<Rightarrow> net \<Rightarrow> bool" where
  "within_limits_spec settings net =
     (list_all (\<lambda>v. fle (Fin (min_volt settings)) v \<and> fle v (Fin (max_volt settings)))
        (res_bus_vm_pu net)
      \<and> list_all (\<lambda>x. fle x (Fin (max_curr settings))) (res_line_loading_percent net)
      \<and> list_all (\<lambda>x. fle x (Fin (max_curr settings))) (res_trafo_loading_percent net))"

section \<open>Stubs for the external collaborators\<close>

text \<open>
  Concrete stand-ins for the clock, the random generator and the solver, to run the model
  on concrete inputs: a world where nothing has been read or printed; a generator whose
  normal draws return the mean and whose uniform draws return the midpoint; a solver
  that returns at once and leaves the network as it is; a solver that raises when the
  first generator is set to more than 1 MW and returns otherwise.
\<close>

definition idle_world :: world where
  "idle_world = \<lparr>wall_clock = (\<lambda>k. real k), reads = 0, printed = []\<rparr>"


definition runpp_returns :: "net \<Rightarrow> solve" where
  "runpp_returns net = Solved net"


section \<open>Loop lemmas\<close>

lemma mapE_Inr_iff:
  "mapE f xs = Inr ys \<longleftrightarrow> length ys = length xs \<and> (\<forall>i<length xs. f (xs ! i) = Inr (ys ! i))"
proof (induction xs arbitrary: ys)
  case Nil
  then show ?case by auto
next
  case (Cons x xs)
  show ?case
  proof (cases "f x")
    case (Inl e)
    then show ?thesis by (auto dest: spec [of _ 0])
  next
    case (Inr y)
    note fx = this
    show ?thesis
    proof (cases "mapE f xs")
      case (Inl e)
      with Cons.IH [of "tl ys"] fx show ?thesis
        by (cases ys) (auto simp: nth_Cons split: nat.splits)
    next
      case (Inr zs)
      with Cons.IH [of zs] Cons.IH [of "tl ys"] fx show ?thesis
        by (cases ys) (auto simp: nth_Cons less_Suc_eq_0_disj split: nat.splits)
    qed
  qed
qed


lemma mapE_length: "mapE f xs = Inr ys \<Longrightarrow> length ys = length xs"
  by (simp add: mapE_Inr_iff)

lemma mapE_nth: "mapE f xs = Inr ys \<Longrightarrow> i < length xs \<Longrightarrow> f (xs ! i) = Inr (ys ! i)"
  by (simp add: mapE_Inr_iff)

lemma nested_loop_entry:
  assumes "mapE (\<lambda>j. mapE (\<lambda>i. body j i) [0..<m]) [0..<n] = Inr ps"
    and "j < n" and "i < m"
  shows "body j i = Inr (ps ! j ! i)" and "length ps = n" and "length (ps ! j) = m"
proof -
  from assms(1) show "length ps = n" by (simp add: mapE_Inr_iff)
  from assms(1,2) have row: "mapE (\<lambda>i. body j i) [0..<m] = Inr (ps ! j)"
    using mapE_nth [OF assms(1), of j] by simp
  then show "length (ps ! j) = m" by (simp add: mapE_Inr_iff)
  from row assms(3) show "body j i = Inr (ps ! j ! i)"
    using mapE_nth [OF row, of i] by simp
qed


lemma fneg_fmul_sign: "fmul (Fin ((- 1) ^ Suc j)) x = fneg (fmul (Fin ((- 1) ^ j)) x)"
  by (cases x) simp_all

lemma fabs_fneg: "fabs (fneg x) = fabs x"
  by (cases x) simp_all

section \<open>Sign alternation of the power-factor-preserving projection\<close>




lemma sign_sq: "((- 1) ^ j * x)\<^sup>2 = (x::real)\<^sup>2"
  by (simp add: power_mult_distrib flip: power_mult)

lemma non_mp_body_envelope:
  assumes "sample_new_non_mp_point_body gens random_p j i = Inr pq"
    and "sn_mva (gens ! i) = Fin s" and "0 \<le> eps"
  shows "within_envelope (Fin s) eps pq"
proof -
  from assms(1) obtain p_perc q_perc where
    r0: "item2 random_p (length gens * j + i) 0 = Inr p_perc" and
    r1: "item2 random_p (length gens * j + i) 1 = Inr q_perc"
    by (auto simp: sample_new_non_mp_point_body_def Let_def split: sum.splits)
  define p where "p = (if p_perc \<ge> 1 then s else if p_perc \<le> 0 then 0 else s * p_perc)"
  have p_le: "p\<^sup>2 \<le> s\<^sup>2"
  proof -
    have "\<bar>p\<bar> \<le> \<bar>s\<bar>"
      unfolding p_def by (auto simp: abs_mult mult_left_le)
    then show ?thesis by (simp add: abs_le_square_iff)
  qed
  define q_max where "q_max = sqrt (s\<^sup>2 - p\<^sup>2)"
  have qm: "q_max\<^sup>2 = s\<^sup>2 - p\<^sup>2" and qm0: "0 \<le> q_max"
    using p_le by (simp_all add: q_max_def)
  define q where "q = (if q_max \<ge> \<bar>s * q_perc\<bar> then (- 1) ^ j * s * q_perc else (- 1) ^ j * q_max)"
  have q_le: "q\<^sup>2 \<le> q_max\<^sup>2"
  proof (cases "q_max \<ge> \<bar>s * q_perc\<bar>")
    case True
    then have "(s * q_perc)\<^sup>2 \<le> q_max\<^sup>2"
      using qm0 by (simp add: abs_le_square_iff [symmetric])
    moreover have "q\<^sup>2 = (s * q_perc)\<^sup>2"
      using True by (simp add: q_def mult.assoc sign_sq)
    ultimately show ?thesis by simp
  next
    case False
    then show ?thesis by (simp add: q_def sign_sq)
  qed
  have pq: "pq = (Fin p, Fin q)"
    using assms(1,2) r0 r1 p_le
    by (auto simp: sample_new_non_mp_point_body_def Let_def p_def q_def q_max_def)
  from q_le qm assms(3) have "p\<^sup>2 + q\<^sup>2 \<le> s\<^sup>2 + eps" by simp
  then show ?thesis by (simp add: within_envelope_def pq)
qed

lemma mp_body_envelope:
  assumes "sample_new_point_body gens random_p j i = Inr pq"
    and "item2 random_p (length gens * j + i) 0 = Inr r" and "\<bar>r\<bar> \<le> 1"
    and "sn_mva (gens ! i) = Fin s" and "0 \<le> eps"
  shows "within_envelope (Fin s) eps pq"
proof -
  have "\<bar>s * r\<bar> \<le> \<bar>s\<bar>"
    using assms(3) by (simp add: abs_mult mult_left_le)
  then have le: "(s * r)\<^sup>2 \<le> s\<^sup>2" by (simp add: abs_le_square_iff)
  then have pq: "pq = (Fin (s * r), Fin ((- 1) ^ j * sqrt (s\<^sup>2 - (s * r)\<^sup>2)))"
    using assms(1,2,4) by (auto simp: sample_new_point_body_def Let_def)
  have "(s * r)\<^sup>2 + ((- 1) ^ j * sqrt (s\<^sup>2 - (s * r)\<^sup>2))\<^sup>2 = s\<^sup>2"
    using le by (simp add: sign_sq)
  with assms(5) show ?thesis
    by (simp add: within_envelope_def pq)
qed

section \<open>The envelope of the generator projections\<close>

text \<open>
  C1, as amended. Every setpoint that \<open>sample_new_non_mp_point\<close> (\<open>keep_mp\<close> false)
  produces for a generator whose rating is a number lies within the envelope
  \<open>p^2 + q^2 <= sn_mva^2 + eps\<close>, for every raw array and every \<open>eps >= 0\<close>. A setpoint that
  \<open>sample_new_point\<close> (\<open>keep_mp\<close> true) produces lies within the envelope when the raw value
  it was computed from has absolute value at most 1.
\<close>

theorem generator_envelope:
  assumes "0 \<le> eps" and "j < length ps" and "i < length (ps ! j)"
    and "sn_mva (gens ! i) \<noteq> NaN"
  shows "(sample_new_non_mp_point gens random_p n = Inr ps
            \<longrightarrow> within_envelope (sn_mva (gens ! i)) eps (ps ! j ! i))
       \<and> (sample_new_point gens random_p n = Inr ps
            \<and> (\<exists>r. item2 random_p (length gens * j + i) 0 = Inr r \<and> \<bar>r\<bar> \<le> 1)
            \<longrightarrow> within_envelope (sn_mva (gens ! i)) eps (ps ! j ! i))"
proof -
  from assms(4) obtain s where s: "sn_mva (gens ! i) = Fin s"
    by (cases "sn_mva (gens ! i)") auto
  have a: "within_envelope (sn_mva (gens ! i)) eps (ps ! j ! i)"
    if run: "sample_new_non_mp_point gens random_p n = Inr ps"
  proof -
    from run have len: "length ps = n"
      by (simp add: sample_new_non_mp_point_def mapE_length)
    with assms(2) have j: "j < n" by simp
    from run j have row: "mapE (\<lambda>i. sample_new_non_mp_point_body gens random_p j i) [0..<length gens] = Inr (ps ! j)"
      using mapE_nth [OF run [unfolded sample_new_non_mp_point_def], of j] by simp
    then have "length (ps ! j) = length gens" by (simp add: mapE_length)
    with assms(3) have i: "i < length gens" by simp
    have "sample_new_non_mp_point_body gens random_p j i = Inr (ps ! j ! i)"
      using nested_loop_entry(1) [OF run [unfolded sample_new_non_mp_point_def] j i] .
    from non_mp_body_envelope [OF this s assms(1)] s show ?thesis by simp
  qed
  have b: "within_envelope (sn_mva (gens ! i)) eps (ps ! j ! i)"
    if run: "sample_new_point gens random_p n = Inr ps"
      and raw: "item2 random_p (length gens * j + i) 0 = Inr r" "\<bar>r\<bar> \<le> 1" for r
  proof -
    from run have len: "length ps = n"
      by (simp add: sample_new_point_def mapE_length)
    with assms(2) have j: "j < n" by simp
    from run j have row: "mapE (\<lambda>i. sample_new_point_body gens random_p j i) [0..<length gens] = Inr (ps ! j)"
      using mapE_nth [OF run [unfolded sample_new_point_def], of j] by simp
    then have "length (ps ! j) = length gens" by (simp add: mapE_length)
    with assms(3) have i: "i < length gens" by simp
    have "sample_new_point_body gens random_p j i = Inr (ps ! j ! i)"
      using nested_loop_entry(1) [OF run [unfolded sample_new_point_def] j i] .
    from mp_body_envelope [OF this raw s assms(1)] s show ?thesis by simp
  qed
  from a b show ?thesis by blast
qed

theorem generator_envelope_witness:
  "sample_new_non_mp_point [\<lparr>sn_mva = Fin 1, p_mw = Fin 1, q_mvar = Fin 0\<rparr>] [[2, 1 / 2]] 1
     = Inr [[(Fin 1, Fin 0)]]
   \<and> within_envelope (Fin 1) 0 (Fin 1, Fin 0)
   \<and> sample_new_point [\<lparr>sn_mva = Fin 1, p_mw = Fin 1, q_mvar = Fin 0\<rparr>] [[0]] 1
     = Inr [[(Fin 0, Fin 1)]]
   \<and> within_envelope (Fin 1) 0 (Fin 0, Fin 1)"
proof -
  let ?g = "[\<lparr>sn_mva = Fin 1, p_mw = Fin 1, q_mvar = Fin 0\<rparr>]"
  have r1: "sample_new_non_mp_point ?g [[2, 1 / 2]] 1 = Inr [[(Fin 1, Fin 0)]]"
    by (simp add: sample_new_non_mp_point_def sample_new_non_mp_point_body_def item2_def item_def)
  have r2: "sample_new_point ?g [[0]] 1 = Inr [[(Fin 0, Fin 1)]]"
    by (simp add: sample_new_point_def sample_new_point_body_def item2_def item_def)
  have "within_envelope (Fin 1) 0 (Fin 1, Fin 0)"
    using generator_envelope [of 0 0 "[[(Fin 1, Fin 0)]]" 0 ?g "[[2, 1 / 2]]" 1] r1 by simp
  moreover have "within_envelope (Fin 1) 0 (Fin 0, Fin 1)"
    using generator_envelope [of 0 0 "[[(Fin 0, Fin 1)]]" 0 ?g "[[0]]" 1] r2
    by (simp add: item2_def item_def)
  ultimately show ?thesis using r1 r2 by simp
qed

text \<open>
  The claim as stated fails for \<open>keep_mp\<close> true: a raw value of 2 on a generator rated 1
  gives \<open>p = 2\<close> and \<open>q = NaN\<close> (the square root of \<open>1 - 4\<close>), outside the envelope even with
  \<open>eps = 1\<close>.
\<close>

theorem generator_envelope_counterexample:
  "sample_new_point [\<lparr>sn_mva = Fin 1, p_mw = Fin 1, q_mvar = Fin 0\<rparr>] [[2]] 1
     = Inr [[(Fin 2, NaN)]]
   \<and> \<not> within_envelope (Fin 1) 1 (Fin 2, NaN)
   \<and> \<not> fle (fsq (Fin 2)) (fadd (fsq (Fin 1)) (Fin 1))"
  by (simp add: sample_new_point_def sample_new_point_body_def item2_def item_def
      within_envelope_def)

section \<open>Raw draws\<close>

lemma draw_row_length: "length (fst (draw_row d k s)) = k"
proof (induction k arbitrary: s)
  case 0
  then show ?case by simp
next
  case (Suc k)
  obtain x s' where x: "d s = (x, s')" by (cases "d s")
  obtain xs s'' where xs: "draw_row d k s' = (xs, s'')" by (cases "draw_row d k s'")
  from Suc [of s'] xs have "length xs = k" by simp
  with x xs show ?case by simp
qed

lemma draw_array_length: "length (fst (draw_array d n dof s)) = n"
proof (induction n arbitrary: s)
  case 0
  then show ?case by simp
next
  case (Suc n)
  obtain x s' where x: "draw_row d dof s = (x, s')" by (cases "draw_row d dof s")
  obtain xs s'' where xs: "draw_array d n dof s' = (xs, s'')" by (cases "draw_array d n dof s'")
  from Suc [of s'] xs have "length xs = n" by simp
  with x xs show ?case by simp
qed

lemma draw_array_rows_all: "\<forall>r\<in>set (fst (draw_array d n dof s)). length r = dof"
proof (induction n arbitrary: s)
  case 0
  then show ?case by simp
next
  case (Suc n)
  obtain x s' where x: "draw_row d dof s = (x, s')" by (cases "draw_row d dof s")
  obtain xs s'' where xs: "draw_array d n dof s' = (xs, s'')" by (cases "draw_array d n dof s'")
  from x have "length x = dof" using draw_row_length [of d dof s] by simp
  moreover have "\<forall>r\<in>set xs. length r = dof"
    using Suc [of s'] xs by simp
  ultimately show ?case using x xs by simp
qed

lemma draw_array_rows: "r \<in> set (fst (draw_array d n dof s)) \<Longrightarrow> length r = dof"
  using draw_array_rows_all [of d n dof s] by blast

lemma columns_length: "length (columns a b) = min (length a) (length b)"
  by (simp add: columns_def)

lemma columns_rows:
  assumes "\<And>r. r \<in> set a \<Longrightarrow> length r = 1" and "\<And>r. r \<in> set b \<Longrightarrow> length r = 1"
    and "r \<in> set (columns a b)"
  shows "length r = 2"
proof -
  from assms(3) obtain x y where "(x, y) \<in> set (zip a b)" and r: "r = x @ y"
    by (auto simp: columns_def)
  then have "x \<in> set a" and "y \<in> set b" by (auto dest: set_zip_leftD set_zip_rightD)
  with assms(1,2) r show ?thesis by simp
qed

lemma sample_from_rng_nlo2:
  "\<exists>rows rng'. sample_from_rng np ''Normal_Limits_Oriented'' n 2 rng = Inr (rows, rng')
      \<and> length rows = n + 2 * (n div 4) \<and> (\<forall>r\<in>set rows. length r = 2)"
proof -
  obtain q1 s1 where q1: "draw_array (normal np 0 1) (1 * (n div 4)) 2 rng = (q1, s1)"
    by (cases "draw_array (normal np 0 1) (1 * (n div 4)) 2 rng")
  obtain a2 s2 where a2: "draw_array (normal np 0 1) (n div 4) 1 s1 = (a2, s2)"
    by (cases "draw_array (normal np 0 1) (n div 4) 1 s1")
  obtain b2 s3 where b2: "draw_array (normal np 1 1) (n div 4) 1 s2 = (b2, s3)"
    by (cases "draw_array (normal np 1 1) (n div 4) 1 s2")
  obtain a3 s4 where a3: "draw_array (normal np 1 1) (n div 4) 1 s3 = (a3, s4)"
    by (cases "draw_array (normal np 1 1) (n div 4) 1 s3")
  obtain b3 s5 where b3: "draw_array (normal np 0 1) (n div 4) 1 s4 = (b3, s5)"
    by (cases "draw_array (normal np 0 1) (n div 4) 1 s4")
  obtain a4 s6 where a4: "draw_array (normal np (1 / 2) 1) (n - n div 4) 1 s5 = (a4, s6)"
    by (cases "draw_array (normal np (1 / 2) 1) (n - n div 4) 1 s5")
  obtain b4 s7 where b4: "draw_array (normal np (1 / 2) 1) (n - n div 4) 1 s6 = (b4, s7)"
    by (cases "draw_array (normal np (1 / 2) 1) (n - n div 4) 1 s6")
  have run: "sample_from_rng np ''Normal_Limits_Oriented'' n 2 rng
      = Inr (q1 @ columns a2 b2 @ columns a3 b3 @ columns a4 b4, s7)"
    using q1 a2 b2 a3 b3 a4 b4 by (simp add: sample_from_rng_def)
  have l1: "length q1 = n div 4"
    using draw_array_length [of "normal np 0 1" "1 * (n div 4)" 2 rng] q1 by simp
  have l2: "length (columns a2 b2) = n div 4"
    using draw_array_length [of "normal np 0 1" "n div 4" 1 s1]
      draw_array_length [of "normal np 1 1" "n div 4" 1 s2] a2 b2
    by (simp add: columns_length)
  have l3: "length (columns a3 b3) = n div 4"
    using draw_array_length [of "normal np 1 1" "n div 4" 1 s3]
      draw_array_length [of "normal np 0 1" "n div 4" 1 s4] a3 b3
    by (simp add: columns_length)
  have l4: "length (columns a4 b4) = n - n div 4"
    using draw_array_length [of "normal np (1 / 2) 1" "n - n div 4" 1 s5]
      draw_array_length [of "normal np (1 / 2) 1" "n - n div 4" 1 s6] a4 b4
    by (simp add: columns_length)
  have w1: "\<And>r. r \<in> set q1 \<Longrightarrow> length r = 2"
    using draw_array_rows [of _ "normal np 0 1" "1 * (n div 4)" 2 rng] q1 by simp
  have w2: "\<And>r. r \<in> set (columns a2 b2) \<Longrightarrow> length r = 2"
    using draw_array_rows [of _ "normal np 0 1" "n div 4" 1 s1]
      draw_array_rows [of _ "normal np 1 1" "n div 4" 1 s2] a2 b2
    by (intro columns_rows [of a2 b2]) auto
  have w3: "\<And>r. r \<in> set (columns a3 b3) \<Longrightarrow> length r = 2"
    using draw_array_rows [of _ "normal np 1 1" "n div 4" 1 s3]
      draw_array_rows [of _ "normal np 0 1" "n div 4" 1 s4] a3 b3
    by (intro columns_rows [of a3 b3]) auto
  have w4: "\<And>r. r \<in> set (columns a4 b4) \<Longrightarrow> length r = 2"
    using draw_array_rows [of _ "normal np (1 / 2) 1" "n - n div 4" 1 s5]
      draw_array_rows [of _ "normal np (1 / 2) 1" "n - n div 4" 1 s6] a4 b4
    by (intro columns_rows [of a4 b4]) auto
  have "length (q1 @ columns a2 b2 @ columns a3 b3 @ columns a4 b4) = n + 2 * (n div 4)"
    using l1 l2 l3 l4 by simp
  moreover have "\<forall>r\<in>set (q1 @ columns a2 b2 @ columns a3 b3 @ columns a4 b4). length r = 2"
    using w1 w2 w3 w4 by auto
  ultimately show ?thesis using run by blast
qed

section \<open>The size of the limits-oriented draw\<close>

text \<open>
  C3. For \<open>dof = 2\<close> the limits-oriented draw is the concatenation of three quarters of
  \<open>n div 4\<close> rows and a fourth part of \<open>n - n div 4\<close> rows (not \<open>n - 3 * (n div 4)\<close>), so it
  has \<open>n + 2 * (n div 4)\<close> rows: for \<open>n = 4\<close>, 6 rows where the claim says 4.
\<close>

theorem sample_from_rng_limits_oriented_rows:
  "(\<exists>rows rng'. sample_from_rng np ''Normal_Limits_Oriented'' n 2 rng = Inr (rows, rng')
      \<and> length rows = n + 2 * (n div 4))
   \<and> (\<exists>rows rng'. sample_from_rng np ''Normal_Limits_Oriented'' 4 2 rng = Inr (rows, rng')
      \<and> length rows = 6 \<and> length rows \<noteq> 4)"
  using sample_from_rng_nlo2 [of np n rng] sample_from_rng_nlo2 [of np 4 rng]
  by (auto simp del: One_nat_def)

section \<open>A reactive-power budget that is not a number\<close>

text \<open>
  C7. A load with \<open>p_mw = 2\<close> and \<open>sn_mva = 1\<close>, raw values \<open>(1, 1)\<close>: the budget is the
  square root of \<open>1 - 4\<close>, \<open>NaN\<close>. With \<open>flex_loads\<close> empty, the sample is returned with
  \<open>q = NaN\<close> and nothing is printed; with \<open>flex_loads = [0]\<close>, a line is printed and the
  sample is returned with \<open>q = NaN\<close> all the same. In neither branch does the sample fail.
\<close>

theorem sample_new_load_point_nan_budget:
  "sample_new_load_point [\<lparr>sn_mva = Fin 1, p_mw = Fin 2, q_mvar = Fin 1\<rparr>] [[1, 1]] 1 []
     = (Inr [[(Fin 2, NaN)]], [])
   \<and> sample_new_load_point [\<lparr>sn_mva = Fin 1, p_mw = Fin 2, q_mvar = Fin 1\<rparr>] [[1, 1]] 1 [0]
     = (Inr [[(Fin 2, NaN)]], [NanBudget (Fin 1) (Fin 2) 0])"
proof -
  let ?l = "[\<lparr>sn_mva = Fin 1, p_mw = Fin 2, q_mvar = Fin 1\<rparr>]"
  have b1: "sample_new_load_point_all_body ?l [[1, 1]] 0 0 = Inr (Fin 2, NaN)"
    by (simp add: sample_new_load_point_all_body_def item2_def item_def load_change_def Let_def)
  have b2: "sample_new_load_point_flex_body ?l [[1, 1]] [0] 0 (0, 0)
      = (Inr (Fin 2, NaN), [NanBudget (Fin 1) (Fin 2) 0])"
    by (simp add: sample_new_load_point_flex_body_def item2_def item_def at_label_def
        load_change_def Let_def)
  have u: "[0..<1] = [0]" by (simp add: upt_rec)
  have e: "enumerate 0 [0::int] = [(0, 0)]" by (simp add: enumerate_eq_zip u)
  have "sample_new_load_point ?l [[1, 1]] 1 [] = (Inr [[(Fin 2, NaN)]], [])"
    unfolding sample_new_load_point_def using b1 by (simp add: u)
  moreover have "sample_new_load_point ?l [[1, 1]] 1 [0]
      = (Inr [[(Fin 2, NaN)]], [NanBudget (Fin 1) (Fin 2) 0])"
    unfolding sample_new_load_point_def using b2 by (simp add: u e)
  ultimately show ?thesis by simp
qed

section \<open>The default category of FSPs\<close>


section \<open>Applying a profile to the generators\<close>

text \<open>
  C9. Two generators, the first flexible, the second not, with \<open>q_mvar = 0\<close> and
  \<open>p_mw = 2\<close>. Applying a profile writes the profile's values onto the first, and
  overwrites the \<open>q_mvar\<close> of the second with its \<open>p_mw\<close>: 2 instead of 0. The same
  holds for \<open>update_pqs_wl\<close>.
\<close>

theorem update_pqs_overwrites_q_of_non_flexible:
  "update_pqs
     \<lparr>sgen = [\<lparr>sn_mva = Fin 1, p_mw = Fin 1, q_mvar = Fin (1 / 2)\<rparr>,
              \<lparr>sn_mva = Fin 3, p_mw = Fin 2, q_mvar = Fin 0\<rparr>],
      load = [], res_ext_grid_p_mw = Fin 0, res_ext_grid_q_mvar = Fin 0,
      res_bus_vm_pu = [], res_line_loading_percent = [], res_trafo_loading_percent = []\<rparr>
     [] [0] [(Fin (3 / 10), Fin (1 / 10)), (Fin 2, Fin 0)] 1 1
   = Inr \<lparr>sgen = [\<lparr>sn_mva = Fin 1, p_mw = Fin (3 / 10), q_mvar = Fin (1 / 10)\<rparr>,
                  \<lparr>sn_mva = Fin 3, p_mw = Fin 2, q_mvar = Fin 2\<rparr>],
          load = [], res_ext_grid_p_mw = Fin 0, res_ext_grid_q_mvar = Fin 0,
          res_bus_vm_pu = [], res_line_loading_percent = [], res_trafo_loading_percent = []\<rparr>
   \<and> update_pqs_wl
     \<lparr>sgen = [\<lparr>sn_mva = Fin 1, p_mw = Fin 1, q_mvar = Fin (1 / 2)\<rparr>,
              \<lparr>sn_mva = Fin 3, p_mw = Fin 2, q_mvar = Fin 0\<rparr>],
      load = [], res_ext_grid_p_mw = Fin 0, res_ext_grid_q_mvar = Fin 0,
      res_bus_vm_pu = [], res_line_loading_percent = [], res_trafo_loading_percent = []\<rparr>
     [] [0] [(Fin (3 / 10), Fin (1 / 10)), (Fin 2, Fin 0)] 1 1 []
   = Inr \<lparr>sgen = [\<lparr>sn_mva = Fin 1, p_mw = Fin (3 / 10), q_mvar = Fin (1 / 10)\<rparr>,
                  \<lparr>sn_mva = Fin 3, p_mw = Fin 2, q_mvar = Fin 2\<rparr>],
          load = [], res_ext_grid_p_mw = Fin 0, res_ext_grid_q_mvar = Fin 0,
          res_bus_vm_pu = [], res_line_loading_percent = [], res_trafo_loading_percent = []\<rparr>"
  by (simp add: update_pqs_def update_pqs_wl_def update_sgen_entry_def read_sgen_def
      write_sgen_def bindE_def upt_rec Let_def)

section \<open>Classification of a converged solve\<close>

lemma try_runpp_result:
  "try_runpp runpp st profile m b w =
     (case runpp m of
        Failed m' \<Rightarrow> (Inr (m', b), w\<lparr>printed := printed w @ [NotConverged profile]\<rparr>)
      | Solved m' \<Rightarrow>
          (Inr (m',
             if within_limits st m'
             then b\<lparr>x_flexible := x_flexible b @ [res_ext_grid_p_mw m'],
                    y_flexible := y_flexible b @ [res_ext_grid_q_mvar m'],
                    prof_flexible := prof_flexible b @ [profile]\<rparr>
             else b\<lparr>x_non_flexible := x_non_flexible b @ [res_ext_grid_p_mw m'],
                    y_non_flexible := y_non_flexible b @ [res_ext_grid_q_mvar m'],
                    prof_non_flexible := prof_non_flexible b @ [profile]\<rparr>), w))"
  by (simp add: try_runpp_def within_limits_def returnW_def bindW_def print_msg_def Let_def
      split: solve.splits)

text \<open>
  On loadings that are not negative, the three checks of the code, which compare the
  absolute value of a loading with \<open>max_curr\<close>, are the three conditions of the
  specification.
\<close>

lemma limits_as_specified:
  assumes "\<forall>x\<in>set (res_line_loading_percent m). x = NaN \<or> fge x (Fin 0)"
    and "\<forall>x\<in>set (res_trafo_loading_percent m). x = NaN \<or> fge x (Fin 0)"
  shows "within_limits st m \<longleftrightarrow> within_limits_spec st m"
proof -
  have v: "(fle (Fin lo) x \<and> fle x (Fin hi)) = (fge (Fin hi) x \<and> fge x (Fin lo))" for lo hi x
    by (cases x) auto
  have one: "fle x (Fin c) = fge (Fin c) (fabs x)" if "x = NaN \<or> fge x (Fin 0)" for c x
    using that by (cases x) auto
  have l: "list_all (\<lambda>x. fle x (Fin c)) xs = list_all (\<lambda>x. fge (Fin c) (fabs x)) xs"
    if "\<forall>x\<in>set xs. x = NaN \<or> fge x (Fin 0)" for c xs
    using that by (induction xs) (simp_all add: one)
  show ?thesis
    unfolding within_limits_def within_limits_spec_def check_voltage_limits_def
      check_line_current_limits_def check_trafo_current_limits_def
    using l [OF assms(1)] l [OF assms(2)] by (simp add: v)
qed

text \<open>
  C4. The loading percentages a solve returns are ratios of a current magnitude to a
  rated current: not negative, or \<open>NaN\<close>. When the solve returns, the slack-bus pair and
  the profile are appended to the feasible bucket if every bus voltage is within
  \<open>[min_volt, max_volt]\<close> and every line and transformer loading is at most \<open>max_curr\<close>,
  and to the infeasible bucket otherwise; nothing else changes and nothing is printed.
\<close>

theorem try_runpp_classifies:
  assumes "runpp nt = Solved nt'"
    and "\<forall>x\<in>set (res_line_loading_percent nt'). x = NaN \<or> fge x (Fin 0)"
    and "\<forall>x\<in>set (res_trafo_loading_percent nt'). x = NaN \<or> fge x (Fin 0)"
  shows "try_runpp runpp st profile nt b w =
     (if within_limits_spec st nt'
      then (Inr (nt', b\<lparr>x_flexible := x_flexible b @ [res_ext_grid_p_mw nt'],
                         y_flexible := y_flexible b @ [res_ext_grid_q_mvar nt'],
                         prof_flexible := prof_flexible b @ [profile]\<rparr>), w)
      else (Inr (nt', b\<lparr>x_non_flexible := x_non_flexible b @ [res_ext_grid_p_mw nt'],
                         y_non_flexible := y_non_flexible b @ [res_ext_grid_q_mvar nt'],
                         prof_non_flexible := prof_non_flexible b @ [profile]\<rparr>), w))"
  using assms(1) limits_as_specified [OF assms(2,3), of st]
  by (simp add: try_runpp_result)

theorem try_runpp_classifies_witness:
  "within_limits_spec
     \<lparr>no_samples = 2, fsps = ''DG only'', fsp_wt = [], fsp_pv = [], fsp_load = [],
      max_curr = 100, max_volt = 105 / 100, min_volt = 95 / 100\<rparr>
     \<lparr>sgen = [], load = [], res_ext_grid_p_mw = Fin 5, res_ext_grid_q_mvar = Fin 1,
      res_bus_vm_pu = [Fin 1], res_line_loading_percent = [Fin 50],
      res_trafo_loading_percent = [Fin 20]\<rparr>
   \<and> try_runpp runpp_returns
       \<lparr>no_samples = 2, fsps = ''DG only'', fsp_wt = [], fsp_pv = [], fsp_load = [],
        max_curr = 100, max_volt = 105 / 100, min_volt = 95 / 100\<rparr>
       []
       \<lparr>sgen = [], load = [], res_ext_grid_p_mw = Fin 5, res_ext_grid_q_mvar = Fin 1,
        res_bus_vm_pu = [Fin 1], res_line_loading_percent = [Fin 50],
        res_trafo_loading_percent = [Fin 20]\<rparr>
       no_buckets idle_world
     = (Inr (\<lparr>sgen = [], load = [], res_ext_grid_p_mw = Fin 5, res_ext_grid_q_mvar = Fin 1,
              res_bus_vm_pu = [Fin 1], res_line_loading_percent = [Fin 50],
              res_trafo_loading_percent = [Fin 20]\<rparr>,
             \<lparr>x_flexible = [Fin 5], y_flexible = [Fin 1], x_non_flexible = [],
              y_non_flexible = [], prof_flexible = [[]], prof_non_flexible = []\<rparr>),
        idle_world)
   \<and> \<not> within_limits_spec
     \<lparr>no_samples = 2, fsps = ''DG only'', fsp_wt = [], fsp_pv = [], fsp_load = [],
      max_curr = 100, max_volt = 105 / 100, min_volt = 95 / 100\<rparr>
     \<lparr>sgen = [], load = [], res_ext_grid_p_mw = Fin 7, res_ext_grid_q_mvar = Fin 2,
      res_bus_vm_pu = [Fin 1], res_line_loading_percent = [Fin 150],
      res_trafo_loading_percent = [Fin 20]\<rparr>
   \<and> try_runpp runpp_returns
       \<lparr>no_samples = 2, fsps = ''DG only'', fsp_wt = [], fsp_pv = [], fsp_load = [],
        max_curr = 100, max_volt = 105 / 100, min_volt = 95 / 100\<rparr>
       []
       \<lparr>sgen = [], load = [], res_ext_grid_p_mw = Fin 7, res_ext_grid_q_mvar = Fin 2,
        res_bus_vm_pu = [Fin 1], res_line_loading_percent = [Fin 150],
        res_trafo_loading_percent = [Fin 20]\<rparr>
       no_buckets idle_world
     = (Inr (\<lparr>sgen = [], load = [], res_ext_grid_p_mw = Fin 7, res_ext_grid_q_mvar = Fin 2,
              res_bus_vm_pu = [Fin 1], res_line_loading_percent = [Fin 150],
              res_trafo_loading_percent = [Fin 20]\<rparr>,
             \<lparr>x_flexible = [], y_flexible = [], x_non_flexible = [Fin 7],
              y_non_flexible = [Fin 2], prof_flexible = [], prof_non_flexible = [[]]\<rparr>),
        idle_world)"
proof -
  let ?st = "\<lparr>no_samples = 2, fsps = ''DG only'', fsp_wt = [], fsp_pv = [], fsp_load = [],
      max_curr = 100, max_volt = 105 / 100, min_volt = 95 / 100\<rparr>"
  let ?a = "\<lparr>sgen = [], load = [], res_ext_grid_p_mw = Fin 5, res_ext_grid_q_mvar = Fin 1,
      res_bus_vm_pu = [Fin 1], res_line_loading_percent = [Fin 50],
      res_trafo_loading_percent = [Fin 20]\<rparr>"
  let ?b = "\<lparr>sgen = [], load = [], res_ext_grid_p_mw = Fin 7, res_ext_grid_q_mvar = Fin 2,
      res_bus_vm_pu = [Fin 1], res_line_loading_percent = [Fin 150],
      res_trafo_loading_percent = [Fin 20]\<rparr>"
  have sa: "runpp_returns ?a = Solved ?a" and sb: "runpp_returns ?b = Solved ?b"
    by (simp_all add: runpp_returns_def)
  have la: "\<forall>x\<in>set (res_line_loading_percent ?a). x = NaN \<or> fge x (Fin 0)"
    and ta: "\<forall>x\<in>set (res_trafo_loading_percent ?a). x = NaN \<or> fge x (Fin 0)"
    and lb: "\<forall>x\<in>set (res_line_loading_percent ?b). x = NaN \<or> fge x (Fin 0)"
    and tb: "\<forall>x\<in>set (res_trafo_loading_percent ?b). x = NaN \<or> fge x (Fin 0)"
    by simp_all
  have wa: "within_limits_spec ?st ?a" and wb: "\<not> within_limits_spec ?st ?b"
    by (simp_all add: within_limits_spec_def)
  show ?thesis
    using try_runpp_classifies [of runpp_returns ?a ?a ?st "[]" no_buckets idle_world]
      try_runpp_classifies [of runpp_returns ?b ?b ?st "[]" no_buckets idle_world]
      sa sb la ta lb tb wa wb
    by (simp add: no_buckets_def)
qed

section \<open>Applying a profile that fits never raises\<close>









section \<open>The sweep, solve by solve\<close>








section \<open>Classification completeness\<close>









section \<open>What of a result depends on the clock and the console\<close>

lemma bindW_rel:
  assumes "map_sum id g (fst (m w1)) = map_sum id g (fst (m' w2))"
    and "\<And>a a' v1 v2. g a = g a' \<Longrightarrow> map_sum id h (fst (f a v1)) = map_sum id h (fst (f' a' v2))"
  shows "map_sum id h (fst (bindW m f w1)) = map_sum id h (fst (bindW m' f' w2))"
proof (cases "m w1")
  case (Pair r1 u1)
  note m1 = this
  show ?thesis
  proof (cases "m' w2")
    case (Pair r2 u2)
    with m1 assms(1) have rel: "map_sum id g r1 = map_sum id g r2" by simp
    show ?thesis
    proof (cases r1)
      case (Inl e)
      with rel have "r2 = Inl e" by (cases r2) simp_all
      with Inl m1 Pair show ?thesis by (simp add: bindW_def)
    next
      case (Inr a)
      with rel obtain a' where r2: "r2 = Inr a'" and "g a = g a'" by (cases r2) simp_all
      from assms(2) [OF this(2), of u1 u2] Inr r2 m1 Pair show ?thesis
        by (simp add: bindW_def)
    qed
  qed
qed

lemma liftE_rel: "map_sum id id (fst (liftE r w1)) = map_sum id id (fst (liftE r w2))"
  by (simp add: liftE_def)

lemma create_samples_world:
  "map_sum id (\<lambda>((ps, d), r). (ps, r)) (fst (create_samples np n nt distr keep rng w1))
     = map_sum id (\<lambda>((ps, d), r). (ps, r)) (fst (create_samples np n nt distr keep rng w2))"
  by (simp add: create_samples_def bindW_def time_time_def liftE_def print_msg_def returnW_def
      split: sum.splits prod.splits)

lemma create_load_samples_world:
  "map_sum id (\<lambda>((ps, d), r). (ps, r)) (fst (create_load_samples np n nt distr fl rng w1))
     = map_sum id (\<lambda>((ps, d), r). (ps, r)) (fst (create_load_samples np n nt distr fl rng w2))"
  by (simp add: create_load_samples_def bindW_def time_time_def liftE_def print_msg_def
      returnW_def emit_def Let_def split: sum.splits prod.splits)

lemma profile_creation_dg_world:
  "map_sum id fst (fst (profile_creation np n nt distr keep ''DG only'' fl w1))
     = map_sum id fst (fst (profile_creation np n nt distr keep ''DG only'' fl w2))"
  unfolding profile_creation_def Let_def
  apply simp
  apply (rule bindW_rel [where g = "\<lambda>((ps, d), r). (ps, r)"])
   apply (rule create_samples_world)
  apply (clarsimp simp: returnW_def)
  done

lemma profile_creation_load_world:
  "map_sum id fst (fst (profile_creation np n nt distr keep ''Load only'' fl w1))
     = map_sum id fst (fst (profile_creation np n nt distr keep ''Load only'' fl w2))"
  unfolding profile_creation_def Let_def
  apply simp
  apply (rule bindW_rel [where g = "\<lambda>((ps, d), r). (ps, r)"])
   apply (rule create_samples_world)
  apply clarsimp
  apply (rule bindW_rel [where g = "\<lambda>((ps, d), r). (ps, r)"])
   apply (rule create_load_samples_world)
  apply clarsimp
  apply (rule bindW_rel [where g = id])
   apply (rule liftE_rel)
  apply (clarsimp simp: returnW_def)
  done

lemma profile_creation_all_world:
  "map_sum id fst (fst (profile_creation np n nt distr keep ''All'' fl w1))
     = map_sum id fst (fst (profile_creation np n nt distr keep ''All'' fl w2))"
  unfolding profile_creation_def Let_def
  apply simp
  apply (rule bindW_rel [where g = "\<lambda>((ps, d), r). (ps, r)"])
   apply (rule create_samples_world)
  apply clarsimp
  apply (rule bindW_rel [where g = "\<lambda>((ps, d), r). (ps, r)"])
   apply (rule create_load_samples_world)
  apply clarsimp
  apply (rule bindW_rel [where g = id])
   apply (rule liftE_rel)
  apply clarsimp
  apply (rule bindW_rel [where g = "\<lambda>((ps, d), r). (ps, r)"])
   apply (rule create_samples_world)
  apply clarsimp
  apply (rule bindW_rel [where g = id])
   apply (rule liftE_rel)
  apply clarsimp
  apply (rule bindW_rel [where g = id])
   apply (rule liftE_rel)
  apply clarsimp
  apply (rule bindW_rel [where g = "\<lambda>((ps, d), r). (ps, r)"])
   apply (rule create_load_samples_world)
  apply clarsimp
  apply (rule bindW_rel [where g = id])
   apply (rule liftE_rel)
  apply clarsimp
  apply (rule bindW_rel [where g = id])
   apply (rule liftE_rel)
  apply (clarsimp simp: returnW_def)
  done

lemma profile_creation_other_world:
  assumes "services \<noteq> ''DG only''" "services \<noteq> ''All''" "services \<noteq> ''Load only''"
  shows "map_sum id fst (fst (profile_creation np n nt distr keep services fl w1))
     = map_sum id fst (fst (profile_creation np n nt distr keep services fl w2))"
  using assms by (simp add: profile_creation_def liftE_def)

section \<open>Determinism of the sampler\<close>

text \<open>
  C8. The batch \<open>profile_creation\<close> returns (or the exception it raises) is a function of
  its arguments and of the random-number library alone: the generator is seeded with 21
  inside the call, and neither the readings of the clock nor what has been printed
  before reach the batch. Two runs with the same arguments, in any two worlds, give the
  same batch; only the reported duration may differ.
\<close>

theorem profile_creation_deterministic:
  "map_sum id fst (fst (profile_creation np n nt distr keep services fl w1))
     = map_sum id fst (fst (profile_creation np n nt distr keep services fl w2))"
  using profile_creation_dg_world [of np n nt distr keep fl w1 w2]
    profile_creation_load_world [of np n nt distr keep fl w1 w2]
    profile_creation_all_world [of np n nt distr keep fl w1 w2]
    profile_creation_other_world [of services np n nt distr keep fl w1 w2]
  by blast

section \<open>The sampler: when it returns, and how many profiles\<close>












section \<open>Joining batches\<close>





section \<open>The size of the blended batch\<close>




lemma profile_creation_all_small:
  assumes "n < 8"
  shows "\<exists>e w'. profile_creation np n nt distr keep ''All'' fl w = (Inl e, w')"
proof -
  from assms have n8: "n div 8 = 0" by simp
  have zero: "\<exists>d v'. create_samples np 0 nt ''No_change'' keep rng v = (Inr (([], d), rng), v')"
    for rng v
    by (simp add: create_samples_def sample_from_rng_def sample_new_point_def
        sample_new_non_mp_point_def bindW_def bindE_def time_time_def liftE_def print_msg_def
        returnW_def)
  have empty: "concatenate_axis1 [] b = Inl AxisError" for b
    by (simp add: concatenate_axis1_def np_shape_def)
  obtain x1 w1 where s1: "create_samples np (n div 2) nt distr keep (RandomState np 21) w = (x1, w1)"
    by (cases "create_samples np (n div 2) nt distr keep (RandomState np 21) w")
  show ?thesis
  proof (cases x1)
    case (Inl e)
    with s1 show ?thesis by (simp add: profile_creation_def bindW_def)
  next
    case (Inr a)
    obtain A d1 r1 where a: "a = ((A, d1), r1)" by (cases a) auto
    obtain x2 w2 where s2: "create_load_samples np (n div 2) nt distr fl r1 w1 = (x2, w2)"
      by (cases "create_load_samples np (n div 2) nt distr fl r1 w1")
    show ?thesis
    proof (cases x2)
      case (Inl e)
      with s1 s2 Inr a show ?thesis by (simp add: profile_creation_def bindW_def)
    next
      case inr2: (Inr b)
      obtain B d2 r2 where b: "b = ((B, d2), r2)" by (cases b) auto
      show ?thesis
      proof (cases "concatenate_axis1 A B")
        case (Inl e)
        with s1 s2 Inr a inr2 b show ?thesis
          by (simp add: profile_creation_def bindW_def liftE_def)
      next
        case inr3: (Inr C)
        from zero [of r2 w2] obtain d3 w3 where
          "create_samples np 0 nt ''No_change'' keep r2 w2 = (Inr (([], d3), r2), w3)" by blast
        with s1 s2 Inr a inr2 b inr3 n8 empty show ?thesis
          by (simp add: profile_creation_def bindW_def liftE_def)
      qed
    qed
  qed
qed




end
